theory Spec2Isabelle
  imports Complex_Main
begin

section \<open>The expense tracker of tracker\_2.py\<close>

text \<open>
  The program is one class, \<open>ExpenseTracker\<close>, whose methods are the slots of a
  form. Its state is the text of the input widgets, the items of the category
  drop-down, the rows of the table widget and the list \<open>self.expenses\<close>. Each slot is
  a function from the state before to the effects it has on the outside (message
  boxes, the written file, the chart) and the state after.

  Amounts are Python floats. The model leaves the type of amounts open (\<open>'a\<close>) and
  takes the builtin \<open>float\<close> as a parameter: a function from the text of the amount
  field to \<open>Some\<close> number, or \<open>None\<close> where Python raises \<open>ValueError\<close>. The only
  arithmetic the program does on amounts is \<open>0 + a\<close> and \<open>s + a\<close>, so the model asks
  for a zero and an addition and for no law about them.

  Strings are lists of 8-bit characters, read as the code points below 256.
\<close>

subsection \<open>Data\<close>

text \<open>The dict appended at line 124: keys amount, category, date, time.\<close>

record 'a expense =
  amount :: 'a
  category :: string
  date :: string
  time :: string

text \<open>
  An item of the table widget. \<open>Rupee2f a\<close> is the item made from the f-string of
  line 129 (the rupee sign, then the amount with two decimals); \<open>Str s\<close> is text.
\<close>

datatype 'a cell = Rupee2f 'a | Str string

text \<open>
  A value held by the data frame of line 149: the float of an amount, or a str. The
  frame is its column names and its rows.
\<close>

datatype 'a pyvalue = PyFloat 'a | PyStr string

type_synonym 'a dataframe = "string list \<times> 'a pyvalue list list"

text \<open>
  A cell of the sheet that \<open>to_excel\<close> writes: \<open>Number a\<close> is a numeric cell holding
  the float \<open>a\<close>; \<open>Written s\<close> is the cell the writer makes of the str \<open>s\<close>. Its
  content is the text \<open>s\<close>; how the writer types it (a writer may mark a text that
  starts with = as a formula) is not modelled.
\<close>

datatype 'a xlsx_cell = Number 'a | Written string

text \<open>What kind of float an amount is; \<open>float\<close> returns all four.\<close>

datatype fclass = Finite | PosInf | NegInf | NaN

datatype exn = ValueError | OSError | ImportError

text \<open>
  What a slot does to the outside: a message box (title, text), the file written by
  \<open>to_excel\<close> (the path and the frame it was called on), the pie chart shown
  (values, labels).
\<close>

datatype 'a effect =
    Warning string string
  | Information string string
  | ExcelFile string "'a dataframe"
  | PieChart "'a list" "string list"

text \<open>
  The widgets and the list. \<open>category_input\<close> is the drop-down: its items and the
  index of the current one. \<open>custom_category_shown\<close> is the visibility of the custom
  category label and field.
\<close>

record 'a tracker =
  amount_input :: string
  category_input :: "string list"
  category_index :: nat
  custom_category_input :: string
  custom_category_shown :: bool
  date_input :: string
  time_input :: string
  table :: "'a cell list list"
  expenses :: "'a expense list"

text \<open>
  A reading of the clock, as the two format strings of the program show it:
  \<open>dd/MM/yyyy\<close> and \<open>HH:mm:ss\<close>.
\<close>

record qdatetime =
  ddMMyyyy :: string
  HHmmss :: string

subsection \<open>Library functions the slots call\<close>

text \<open>\<open>str.isspace\<close> on the code points below 256, and \<open>str.strip()\<close>.\<close>

definition isspace :: "char \<Rightarrow> bool" where
  "isspace c = (of_char c \<in> set [9, 10, 11, 12, 13, 28, 29, 30, 31, 32, 133, 160 :: nat])"

definition strip :: "string \<Rightarrow> string" where
  "strip s = rev (dropWhile isspace (rev (dropWhile isspace s)))"

text \<open>
  \<open>QComboBox.currentText()\<close> of a drop-down that is not editable: the text of the
  current item, empty when there is none.
\<close>

definition currentText :: "'a tracker \<Rightarrow> string" where
  "currentText st =
     (if category_index st < length (category_input st)
      then category_input st ! category_index st else [])"

text \<open>
  A Python dict as an association list in insertion order: \<open>d.get(k, v)\<close> and
  \<open>d[k] = v\<close> (a present key keeps its place, a new one goes last).
\<close>

fun dict_get :: "('k \<times> 'v) list \<Rightarrow> 'k \<Rightarrow> 'v \<Rightarrow> 'v" where
  "dict_get [] k dflt = dflt"
| "dict_get ((k', v') # d) k dflt = (if k' = k then v' else dict_get d k dflt)"

fun dict_set :: "('k \<times> 'v) list \<Rightarrow> 'k \<Rightarrow> 'v \<Rightarrow> ('k \<times> 'v) list" where
  "dict_set [] k v = [(k, v)]"
| "dict_set ((k', v') # d) k v =
     (if k' = k then (k, v) # d else (k', v') # dict_set d k v)"

text \<open>
  \<open>pd.DataFrame(list of dicts)\<close>: the columns are the keys in the order of the dicts,
  and there is one row per dict, holding its values as they are. All the dicts of
  \<open>self.expenses\<close> have the same four keys; an empty list gives a frame with no
  column and no row.
\<close>

definition DataFrame :: "'a expense list \<Rightarrow> 'a dataframe" where
  "DataFrame es =
     (if es = [] then ([], [])
      else ([''amount'', ''category'', ''date'', ''time''],
            map (\<lambda>e. [PyFloat (amount e), PyStr (category e), PyStr (date e),
                        PyStr (time e)]) es))"

text \<open>
  What \<open>df.to_excel(path, index=False)\<close> writes, with the defaults \<open>inf_rep='inf'\<close>
  and \<open>na_rep=''\<close>: a header row of the column names, then one row per row of the
  frame. A finite float becomes a numeric cell; an infinite one is replaced by the
  str \<open>inf\<close> or \<open>-inf\<close> and a NaN by the empty str before the cell is written. The
  kind of a float is asked of \<open>classify\<close>, since the type of amounts is open.
\<close>

definition excel_value :: "('a \<Rightarrow> fclass) \<Rightarrow> 'a pyvalue \<Rightarrow> 'a xlsx_cell" where
  "excel_value classify v =
     (case v of
        PyStr s \<Rightarrow> Written s
      | PyFloat a \<Rightarrow>
          (case classify a of
             Finite \<Rightarrow> Number a
           | PosInf \<Rightarrow> Written ''inf''
           | NegInf \<Rightarrow> Written ''-inf''
           | NaN \<Rightarrow> Written []))"

definition sheet_written :: "('a \<Rightarrow> fclass) \<Rightarrow> 'a dataframe \<Rightarrow> 'a xlsx_cell list list" where
  "sheet_written classify df =
     (if fst df = [] then []
      else map Written (fst df) # map (map (excel_value classify)) (snd df))"

subsection \<open>The constructor and the slots\<close>

text \<open>
  \<open>__init__\<close> (lines 13 to 89). \<open>today\<close> is \<open>QDate.currentDate()\<close> in \<open>dd/MM/yyyy\<close>,
  \<open>now\<close> is the reading of \<open>QDateTime.currentDateTime()\<close>.
\<close>

definition ExpenseTracker_init :: "string \<Rightarrow> qdatetime \<Rightarrow> 'a tracker" where
  "ExpenseTracker_init today now =
     \<lparr> amount_input = [],
       category_input = [''Food'', ''Travel'', ''Utilities'', ''Entertainment'', ''Others''],
       category_index = 0,
       custom_category_input = [],
       custom_category_shown = False,
       date_input = today,
       time_input = HHmmss now,
       table = [],
       expenses = [] \<rparr>"

text \<open>\<open>toggle_custom_category\<close> (lines 91 to 99).\<close>

definition toggle_custom_category :: "string \<Rightarrow> 'a tracker \<Rightarrow> 'a tracker" where
  "toggle_custom_category cat st =
     (if cat = ''Others'' then st\<lparr>custom_category_shown := True\<rparr>
      else st\<lparr>custom_category_shown := False, custom_category_input := []\<rparr>)"

text \<open>
  Lines 119 to 136 of \<open>add_expense\<close>: the record is appended to the list, a row to
  the table, and the two text fields are cleared.
\<close>

definition record_expense :: "'a \<Rightarrow> string \<Rightarrow> 'a tracker \<Rightarrow> 'a tracker" where
  "record_expense amt cat st =
     (let d = date_input st;
          t = time_input st
      in st\<lparr> expenses := expenses st @ [\<lparr>amount = amt, category = cat, date = d, time = t\<rparr>],
             table := table st @ [[Rupee2f amt, Str cat, Str d, Str t]],
             amount_input := [],
             custom_category_input := [] \<rparr>)"

text \<open>
  \<open>add_expense\<close> (lines 101 to 139). \<open>float\<close> is called first, and its \<open>ValueError\<close> is
  caught by the \<open>except\<close> of line 138. The early \<open>return\<close> of line 112 leaves before
  anything is written. \<open>addItem\<close> on a drop-down that has items keeps the current
  index.
\<close>

definition add_expense ::
    "(string \<Rightarrow> 'a option) \<Rightarrow> 'a tracker \<Rightarrow> 'a effect list \<times> 'a tracker" where
  "add_expense float st =
     (case float (amount_input st) of
        None \<Rightarrow> ([Warning ''Input Error'' ''Please enter a valid amount.''], st)
      | Some amt \<Rightarrow>
          (let cat = currentText st in
           if cat = ''Others'' then
             (let custom_category = strip (custom_category_input st) in
              if custom_category = [] then
                ([Warning ''Input Error''
                    (''Please specify a custom category for '' @ [CHR 0x27] @ ''Others''
                       @ [CHR 0x27] @ ''.'')], st)
              else
                ([], record_expense amt custom_category
                       (if custom_category \<notin> set (category_input st)
                        then st\<lparr>category_input := category_input st @ [custom_category]\<rparr>
                        else st)))
           else ([], record_expense amt cat st)))"

text \<open>
  \<open>save_as_excel\<close> (lines 141 to 151). \<open>file_path\<close> is the answer of the file dialog
  (empty when the user cancels), \<open>to_excel\<close> what the call of line 150 does at that
  path: \<open>None\<close> when it writes the file, \<open>Some e\<close> when it raises \<open>e\<close>. The method has
  no handler, so the exception leaves it: \<open>Inl\<close>, with the state at that moment.
\<close>

definition save_as_excel ::
    "string \<Rightarrow> exn option \<Rightarrow> 'a tracker
       \<Rightarrow> (exn \<times> 'a tracker) + ('a effect list \<times> 'a tracker)" where
  "save_as_excel file_path to_excel st =
     (if expenses st = [] then Inr ([Warning ''No Data'' ''No expenses to save.''], st)
      else if file_path \<noteq> [] then
        (case to_excel of
           Some e \<Rightarrow> Inl (e, st)
         | None \<Rightarrow>
             Inr ([ExcelFile file_path (DataFrame (expenses st)),
                   Information ''Success'' ''Data saved as Excel successfully!''], st))
      else Inr ([], st))"

text \<open>
  The loop of lines 155 to 158, which the specification calls
  \<open>totals_by_category\<close>.
\<close>

fun totals_loop ::
    "(string \<times> 'a) list \<Rightarrow> ('a::{zero,plus}) expense list \<Rightarrow> (string \<times> 'a) list" where
  "totals_loop categories [] = categories"
| "totals_loop categories (expense # rest) =
     totals_loop
       (dict_set categories (category expense)
          (dict_get categories (category expense) 0 + amount expense))
       rest"

definition totals_by_category :: "('a::{zero,plus}) expense list \<Rightarrow> (string \<times> 'a) list" where
  "totals_by_category es = totals_loop [] es"

text \<open>
  \<open>generate_report\<close> (lines 153 to 170). \<open>plt_pie\<close> is what the calls of lines 167 to
  170 do with the values: \<open>None\<close> when the chart is shown, \<open>Some e\<close> when matplotlib
  raises \<open>e\<close> (it refuses a negative value); there is no handler here either.
\<close>

definition generate_report ::
    "exn option \<Rightarrow> ('a::{zero,plus}) tracker
       \<Rightarrow> (exn \<times> 'a tracker) + ('a effect list \<times> 'a tracker)" where
  "generate_report plt_pie st =
     (let categories = totals_by_category (expenses st) in
      if categories = [] then
        Inr ([Warning ''No Data'' ''No expenses to generate a report.''], st)
      else
        let y = map fst categories;
            x = map snd categories
        in (case plt_pie of
              Some e \<Rightarrow> Inl (e, st)
            | None \<Rightarrow> Inr ([PieChart x y], st)))"

text \<open>\<open>update_time\<close> (lines 172 to 175).\<close>

definition update_time :: "qdatetime \<Rightarrow> 'a tracker \<Rightarrow> 'a tracker" where
  "update_time now st = st\<lparr>time_input := HHmmss now\<rparr>"

subsection \<open>A session\<close>

text \<open>
  What can happen to the window, from the connections made in \<open>__init__\<close> (lines 38,
  50, 54, 79 and 81) and the widgets the user can edit: typing in the amount field or
  in the custom category field, choosing an item of the drop-down, the three buttons,
  and the timer. The events of the two buttons that call a library carry what the
  library does (the path chosen in the dialog, the exception raised if any); the timer
  carries the reading of the clock.
\<close>

datatype event =
    EditAmount string
  | EditCustomCategory string
  | SelectCategory nat
  | ClickAdd
  | ClickSaveExcel string "exn option"
  | ClickGenerateReport "exn option"
  | Timeout qdatetime

text \<open>
  The state a slot leaves, whether it returned or raised. The program handles no
  exception that leaves a slot, and what Qt does with it is not in the source; a
  session below goes on from the state the slot left, so it reaches every state the
  window can reach.
\<close>

fun state_of :: "(exn \<times> 's) + ('e \<times> 's) \<Rightarrow> 's" where
  "state_of (Inl (e, st)) = st"
| "state_of (Inr (fx, st)) = st"

text \<open>
  Choosing an item sets the current index; \<open>currentTextChanged\<close> calls
  \<open>toggle_custom_category\<close> with the new text when the text changes.
\<close>

definition select_category :: "nat \<Rightarrow> 'a tracker \<Rightarrow> 'a tracker" where
  "select_category i st =
     (if i < length (category_input st) then
        (let st' = st\<lparr>category_index := i\<rparr> in
         if currentText st' \<noteq> currentText st
         then toggle_custom_category (currentText st') st' else st')
      else st)"

fun handle ::
    "(string \<Rightarrow> 'a option) \<Rightarrow> event \<Rightarrow> ('a::{zero,plus}) tracker \<Rightarrow> 'a tracker" where
  "handle float (EditAmount s) st = st\<lparr>amount_input := s\<rparr>"
| "handle float (EditCustomCategory s) st = st\<lparr>custom_category_input := s\<rparr>"
| "handle float (SelectCategory i) st = select_category i st"
| "handle float ClickAdd st = snd (add_expense float st)"
| "handle float (ClickSaveExcel file_path to_excel) st =
     state_of (save_as_excel file_path to_excel st)"
| "handle float (ClickGenerateReport plt_pie) st = state_of (generate_report plt_pie st)"
| "handle float (Timeout now) st = update_time now st"

fun run ::
    "(string \<Rightarrow> 'a option) \<Rightarrow> event list \<Rightarrow> ('a::{zero,plus}) tracker \<Rightarrow> 'a tracker" where
  "run float [] st = st"
| "run float (ev # evs) st = run float evs (handle float ev st)"

subsection \<open>Plain decimal literals\<close>

text \<open>
  To run the model on concrete text, a reader of the plain decimal literals among the
  strings \<open>float\<close> accepts: white space around, a sign, digits, a point, digits. The
  white space \<open>float\<close> removes is not that of \<open>str.strip\<close>: below 256 it is the
  code points 9 to 13, 32, 133 and 160, and not 28 to 31. Every string this reader
  accepts \<open>float\<close> accepts too, and returns the double nearest to the number below,
  which is that number itself when it is an integer below \<open>2 ^ 53\<close>. \<open>float\<close> accepts
  more (exponents, underscores, \<open>inf\<close>, \<open>nan\<close>) where this reader answers \<open>None\<close>;
  so the general statements are about any \<open>float\<close>, and the reader is used only at
  concrete inputs on which it is exact.
\<close>

definition float_isspace :: "char \<Rightarrow> bool" where
  "float_isspace c = (of_char c \<in> set [9, 10, 11, 12, 13, 32, 133, 160 :: nat])"

definition float_strip :: "string \<Rightarrow> string" where
  "float_strip s = rev (dropWhile float_isspace (rev (dropWhile float_isspace s)))"

definition isdigit :: "char \<Rightarrow> bool" where
  "isdigit c = (48 \<le> (of_char c :: nat) \<and> (of_char c :: nat) \<le> 57)"

fun digits_value :: "nat \<Rightarrow> string \<Rightarrow> nat" where
  "digits_value acc [] = acc"
| "digits_value acc (c # cs) = digits_value (10 * acc + (of_char c - 48)) cs"

definition float_plain :: "string \<Rightarrow> rat option" where
  "float_plain s =
     (let t = float_strip s;
          signed = (t \<noteq> [] \<and> (hd t = CHR ''-'' \<or> hd t = CHR ''+''));
          u = (if signed then tl t else t);
          ip = takeWhile isdigit u;
          r = dropWhile isdigit u;
          fp = (if r = [] then [] else tl r);
          v = of_nat (digits_value 0 ip) + of_nat (digits_value 0 fp) / 10 ^ length fp
      in if (r = [] \<and> ip \<noteq> [])
            \<or> (r \<noteq> [] \<and> hd r = CHR ''.'' \<and> list_all isdigit fp \<and> (ip \<noteq> [] \<or> fp \<noteq> []))
         then Some (if signed \<and> hd t = CHR ''-'' then - v else v)
         else None)"

text \<open>
  Amounts that may be infinite or not a number, and the reader above extended by the
  words \<open>float\<close> accepts for them, in any case and with a sign: \<open>inf\<close>, \<open>infinity\<close>
  and \<open>nan\<close>.
\<close>

datatype xfloat = Fin rat | PInf | NInf | NotANumber

definition xfloat_class :: "xfloat \<Rightarrow> fclass" where
  "xfloat_class x = (case x of Fin q \<Rightarrow> Finite | PInf \<Rightarrow> PosInf | NInf \<Rightarrow> NegInf
                     | NotANumber \<Rightarrow> NaN)"

definition rat_class :: "rat \<Rightarrow> fclass" where
  "rat_class q = Finite"

definition lower :: "char \<Rightarrow> char" where
  "lower c = (if 65 \<le> (of_char c :: nat) \<and> (of_char c :: nat) \<le> 90
              then char_of ((of_char c :: nat) + 32) else c)"

definition float_words :: "string \<Rightarrow> xfloat option" where
  "float_words s =
     (let t = float_strip s;
          signed = (t \<noteq> [] \<and> (hd t = CHR ''-'' \<or> hd t = CHR ''+''));
          w = map lower (if signed then tl t else t)
      in if w = ''inf'' \<or> w = ''infinity''
         then Some (if signed \<and> hd t = CHR ''-'' then NInf else PInf)
         else if w = ''nan'' then Some NotANumber
         else map_option Fin (float_plain s))"

subsection \<open>A session with its clock\<close>

text \<open>
  The events of a session, each with the reading of the clock when it happens. No slot
  is given that reading: only \<open>update_time\<close> reads the clock, and its event carries
  what it reads. \<open>appended_at\<close> lists, for the clicks on Add Expense that appended a
  record, the clock at the click and the record. \<open>shown_time\<close> is the text of the
  time label after some events: the time read at the last tick, or the text it had
  when there was none.
\<close>

fun appended_at ::
    "(string \<Rightarrow> 'a option) \<Rightarrow> (qdatetime \<times> event) list \<Rightarrow> ('a::{zero,plus}) tracker
       \<Rightarrow> (qdatetime \<times> 'a expense) list" where
  "appended_at float [] st = []"
| "appended_at float ((clk, ClickAdd) # tevs) st =
     (if length (expenses (handle float ClickAdd st)) = length (expenses st) then []
      else [(clk, last (expenses (handle float ClickAdd st)))])
     @ appended_at float tevs (handle float ClickAdd st)"
| "appended_at float ((clk, ev) # tevs) st = appended_at float tevs (handle float ev st)"

fun shown_time :: "string \<Rightarrow> event list \<Rightarrow> string" where
  "shown_time t [] = t"
| "shown_time t (Timeout now # evs) = shown_time (HHmmss now) evs"
| "shown_time t (ev # evs) = shown_time t evs"

subsection \<open>Concrete sessions\<close>

text \<open>
  A window opened on 4 November 2026 at half past nine, with amounts as rationals,
  and the states a few inputs lead to.
\<close>

definition clock0 :: qdatetime where
  "clock0 = \<lparr>ddMMyyyy = ''04/11/2026'', HHmmss = ''09:30:00''\<rparr>"

definition session0 :: "rat tracker" where
  "session0 = ExpenseTracker_init ''04/11/2026'' clock0"

definition session3 :: "rat tracker" where
  "session3 =
     run float_plain
       [EditAmount ''100'', ClickAdd, EditAmount ''50'', ClickAdd,
        SelectCategory 1, EditAmount ''30'', ClickAdd] session0"

definition session_gifts :: "rat tracker" where
  "session_gifts =
     run float_plain
       [SelectCategory 4, EditCustomCategory '' Gifts '', EditAmount ''12.50''] session0"

definition session_abc :: "rat tracker" where
  "session_abc = run float_plain [EditAmount ''abc''] session0"

definition session_blank :: "rat tracker" where
  "session_blank =
     run float_plain
       [SelectCategory 4, EditCustomCategory ''  '', EditAmount ''20''] session0"

definition clock_next_day :: qdatetime where
  "clock_next_day = \<lparr>ddMMyyyy = ''05/11/2026'', HHmmss = ''00:00:07''\<rparr>"

definition session_typed :: "rat tracker" where
  "session_typed = run float_plain [EditAmount ''100''] session0"

definition session_next_day :: "rat tracker" where
  "session_next_day =
     run float_plain [Timeout clock_next_day, EditAmount ''100'', ClickAdd] session0"

definition session_negative :: "rat tracker" where
  "session_negative = run float_plain [EditAmount ''-5'', ClickAdd] session0"

definition session_zero :: "rat tracker" where
  "session_zero = run float_plain [EditAmount ''0''] session0"

text \<open>
  A session in which the label lags the clock: the window opens at 09:30:00, the timer
  fires when the clock reads 09:30:01, and Add Expense is clicked when the clock reads
  09:30:02, before the timer fires again. And one in which Add Expense is clicked
  before the first tick.
\<close>

definition clock_tick :: qdatetime where
  "clock_tick = \<lparr>ddMMyyyy = ''04/11/2026'', HHmmss = ''09:30:01''\<rparr>"

definition clock_click :: qdatetime where
  "clock_click = \<lparr>ddMMyyyy = ''04/11/2026'', HHmmss = ''09:30:02''\<rparr>"

definition lagging :: "(qdatetime \<times> event) list" where
  "lagging =
     [(clock_tick, Timeout clock_tick), (clock_tick, EditAmount ''100''),
      (clock_click, ClickAdd)]"

definition no_tick :: "(qdatetime \<times> event) list" where
  "no_tick = [(clock0, EditAmount ''100''), (clock_tick, ClickAdd)]"

text \<open>A session whose tick, typing and click all happen on the next day.\<close>

definition next_day :: "(qdatetime \<times> event) list" where
  "next_day =
     [(clock_next_day, Timeout clock_next_day), (clock_next_day, EditAmount ''100''),
      (clock_next_day, ClickAdd)]"

text \<open>A ledger with an infinite amount and one that is not a number.\<close>

definition session_inf :: "xfloat tracker" where
  "session_inf =
     snd (add_expense float_words
       ((snd (add_expense float_words
          ((ExpenseTracker_init ''04/11/2026'' clock0) \<lparr>amount_input := ''inf''\<rparr>)))
        \<lparr>amount_input := ''nan''\<rparr>))"

subsection \<open>The invariant of the specification\<close>

text \<open>
  What the data model of the specification asks of a record: \<open>amount > 0\<close>. The
  program has no such test; this predicate only states the invariant.
\<close>

definition amount_positive :: "('a::{zero,ord}) expense \<Rightarrow> bool" where
  "amount_positive r = (0 < amount r)"

section \<open>Properties\<close>

subsection \<open>The dict and the aggregation loop\<close>

lemma map_of_dict_set: "map_of (dict_set d k v) = (map_of d)(k \<mapsto> v)"
  by (induction d) auto

lemma dict_get_map_of:
  "dict_get d k dflt = (case map_of d k of None \<Rightarrow> dflt | Some v \<Rightarrow> v)"
  by (induction d) auto

lemma keys_dict_set: "fst ` set (dict_set d k v) = insert k (fst ` set d)"
proof -
  have "fst ` set (dict_set d k v) = dom (map_of (dict_set d k v))"
    by (simp add: dom_map_of_conv_image_fst)
  also have "\<dots> = insert k (dom (map_of d))"
    by (simp add: map_of_dict_set)
  finally show ?thesis
    by (simp add: dom_map_of_conv_image_fst)
qed

lemma distinct_dict_set: "distinct (map fst d) \<Longrightarrow> distinct (map fst (dict_set d k v))"
proof (induction d)
  case Nil
  then show ?case by simp
next
  case (Cons p d)
  have "fst p \<notin> fst ` set (dict_set d k v)" if "fst p \<noteq> k"
    using that Cons.prems by (simp add: keys_dict_set)
  with Cons show ?case by (cases p) auto
qed

lemma keys_totals_loop:
  "fst ` set (totals_loop d es) = fst ` set d \<union> category ` set es"
  by (induction es arbitrary: d) (auto simp: keys_dict_set)

lemma distinct_totals_loop:
  "distinct (map fst d) \<Longrightarrow> distinct (map fst (totals_loop d es))"
  by (induction es arbitrary: d) (auto simp: distinct_dict_set)

lemma filter_other_category:
  "c \<notin> category ` set es \<Longrightarrow> filter (\<lambda>e. category e = c) es = []"
  by (auto simp: filter_empty_conv)

text \<open>
  The loop started on any dict: a category of the list gets the amounts of its
  records added, in the order of the list, to what the dict held for it (or to 0);
  the other keys keep their value.
\<close>

lemma lookup_totals_loop:
  "map_of (totals_loop d es) c =
     (if c \<in> category ` set es
      then Some (foldl (+) (dict_get d c 0) (map amount (filter (\<lambda>e. category e = c) es)))
      else map_of d c)"
proof (induction es arbitrary: d)
  case Nil
  then show ?case by simp
next
  case (Cons e es)
  show ?case
  proof (cases "category e = c")
    case True
    then show ?thesis
      by (simp add: Cons.IH map_of_dict_set dict_get_map_of filter_other_category)
  next
    case False
    then show ?thesis
      by (auto simp add: Cons.IH map_of_dict_set dict_get_map_of)
  qed
qed

lemma foldl_plus_sum_list:
  "foldl (+) (z :: 'a :: monoid_add) xs = z + sum_list xs"
  by (induction xs arbitrary: z) (simp_all add: add.assoc)

lemma session3_expenses:
  "expenses session3 =
     [\<lparr>amount = 100, category = ''Food'', date = ''04/11/2026'', time = ''09:30:00''\<rparr>,
      \<lparr>amount = 50, category = ''Food'', date = ''04/11/2026'', time = ''09:30:00''\<rparr>,
      \<lparr>amount = 30, category = ''Travel'', date = ''04/11/2026'', time = ''09:30:00''\<rparr>]"
  by code_simp

subsection \<open>Adding an expense\<close>

text \<open>
  C1. When the text of the amount field parses as a number and the category is a
  preset other than Others, or Others with a custom name that is not empty once
  stripped, \<open>add_expense\<close> appends exactly one record: the list is one longer, it is
  the old list followed by the new record, and the new record, the last of the list,
  holds the parsed amount, the effective category and the date and time shown. No
  message box is raised.
\<close>

theorem add_expense_appends:
  assumes "float (amount_input st) = Some a"
    and "currentText st \<noteq> ''Others'' \<or> strip (custom_category_input st) \<noteq> []"
  shows "length (expenses (snd (add_expense float st))) = length (expenses st) + 1
       \<and> expenses (snd (add_expense float st)) =
           expenses st @
             [\<lparr>amount = a,
               category = (if currentText st = ''Others''
                           then strip (custom_category_input st) else currentText st),
               date = date_input st, time = time_input st\<rparr>]
       \<and> last (expenses (snd (add_expense float st))) =
             \<lparr>amount = a,
              category = (if currentText st = ''Others''
                          then strip (custom_category_input st) else currentText st),
              date = date_input st, time = time_input st\<rparr>
       \<and> fst (add_expense float st) = []"
  using assms by (auto simp: add_expense_def record_expense_def Let_def)

theorem add_expense_appends_witness:
  "float_plain (amount_input session_gifts) = Some (25 / 2)
   \<and> strip (custom_category_input session_gifts) \<noteq> []
   \<and> expenses (snd (add_expense float_plain session_gifts)) =
       [\<lparr>amount = 25 / 2, category = ''Gifts'', date = ''04/11/2026'', time = ''09:30:00''\<rparr>]"
proof -
  have a: "float_plain (amount_input session_gifts) = Some (25 / 2)"
    by code_simp
  have b: "currentText session_gifts \<noteq> ''Others''
           \<or> strip (custom_category_input session_gifts) \<noteq> []"
    by code_simp
  have c: "currentText session_gifts = ''Others''" by code_simp
  have d: "strip (custom_category_input session_gifts) = ''Gifts''" by code_simp
  have e: "expenses session_gifts = []" by code_simp
  have f: "date_input session_gifts = ''04/11/2026''" by code_simp
  have g: "time_input session_gifts = ''09:30:00''" by code_simp
  from add_expense_appends [of float_plain session_gifts "25 / 2", OF a b] show ?thesis
    by (simp add: a c d e f g)
qed

text \<open>
  C2. When the text of the amount field does not parse as a number, or Others is
  selected with a custom name that is empty once stripped, \<open>add_expense\<close> creates no
  record: the whole state, and so the list of records and its length, is what it
  was, and the only effect is one warning box.
\<close>

theorem add_expense_rejects:
  assumes "float (amount_input st) = None
           \<or> (currentText st = ''Others'' \<and> strip (custom_category_input st) = [])"
  shows "snd (add_expense float st) = st
       \<and> expenses (snd (add_expense float st)) = expenses st
       \<and> length (expenses (snd (add_expense float st))) = length (expenses st)
       \<and> (\<exists>msg. fst (add_expense float st) = [Warning ''Input Error'' msg])"
  using assms by (auto simp: add_expense_def Let_def split: option.splits)

theorem add_expense_rejects_witness:
  "float_plain (amount_input session_abc) = None
   \<and> snd (add_expense float_plain session_abc) = session_abc
   \<and> float_plain (amount_input session_blank) = Some 20
   \<and> currentText session_blank = ''Others''
   \<and> strip (custom_category_input session_blank) = []
   \<and> expenses (snd (add_expense float_plain session_blank)) = expenses session_blank"
proof -
  have a: "float_plain (amount_input session_abc) = None" by code_simp
  have b: "float_plain (amount_input session_blank) = Some 20" by code_simp
  have c: "currentText session_blank = ''Others''" by code_simp
  have d: "strip (custom_category_input session_blank) = []" by code_simp
  from add_expense_rejects [of float_plain session_abc]
       add_expense_rejects [of float_plain session_blank]
  show ?thesis by (simp add: a b c d)
qed

subsection \<open>The aggregation\<close>

text \<open>
  C3. The dict built by the loop of \<open>generate_report\<close> has exactly the categories of
  the records as keys, each once, and maps each of them to the sum of the amounts of
  its records: the amounts added one after the other to 0 in the order of the list,
  which is the sum of the list when addition is associative with 0 neutral. A
  category with no record has no key. Over (100, Food), (50, Food), (30, Travel) it
  is Food 150, Travel 30.
\<close>

theorem totals_by_category_sums:
  fixes es :: "('a::{zero,plus}) expense list"
    and es' :: "('b::monoid_add) expense list"
  shows "map_of (totals_by_category es) c =
           (if c \<in> category ` set es
            then Some (foldl (+) 0 (map amount (filter (\<lambda>e. category e = c) es)))
            else None)
       \<and> set (map fst (totals_by_category es)) = category ` set es
       \<and> distinct (map fst (totals_by_category es))
       \<and> map_of (totals_by_category es') c =
           (if c \<in> category ` set es'
            then Some (sum_list (map amount (filter (\<lambda>e. category e = c) es')))
            else None)
       \<and> totals_by_category
           [\<lparr>amount = 100 :: rat, category = ''Food'', date = d1, time = t1\<rparr>,
            \<lparr>amount = 50, category = ''Food'', date = d2, time = t2\<rparr>,
            \<lparr>amount = 30, category = ''Travel'', date = d3, time = t3\<rparr>]
           = [(''Food'', 150), (''Travel'', 30)]"
proof -
  have 1: "map_of (totals_by_category xs) c =
           (if c \<in> category ` set xs
            then Some (foldl (+) 0 (map amount (filter (\<lambda>e. category e = c) xs)))
            else None)" for xs :: "('c::{zero,plus}) expense list"
    by (simp add: totals_by_category_def lookup_totals_loop)
  have 2: "set (map fst (totals_by_category es)) = category ` set es"
    by (simp add: totals_by_category_def keys_totals_loop)
  have 3: "distinct (map fst (totals_by_category es))"
    by (simp add: totals_by_category_def distinct_totals_loop)
  have 4: "map_of (totals_by_category es') c =
           (if c \<in> category ` set es'
            then Some (sum_list (map amount (filter (\<lambda>e. category e = c) es')))
            else None)"
    by (simp add: 1 foldl_plus_sum_list)
  have 5: "totals_by_category
           [\<lparr>amount = 100 :: rat, category = ''Food'', date = d1, time = t1\<rparr>,
            \<lparr>amount = 50, category = ''Food'', date = d2, time = t2\<rparr>,
            \<lparr>amount = 30, category = ''Travel'', date = d3, time = t3\<rparr>]
           = [(''Food'', 150), (''Travel'', 30)]"
    by (simp add: totals_by_category_def)
  from 1 2 3 4 5 show ?thesis by blast
qed

theorem totals_by_category_sums_witness:
  "''Food'' \<in> category ` set (expenses session3)
   \<and> map_of (totals_by_category (expenses session3)) ''Food'' = Some 150
   \<and> ''Utilities'' \<notin> category ` set (expenses session3)
   \<and> map_of (totals_by_category (expenses session3)) ''Utilities'' = None"
  using totals_by_category_sums [of "expenses session3" "''Food''" "[] :: rat expense list"]
        totals_by_category_sums [of "expenses session3" "''Utilities''" "[] :: rat expense list"]
  by (simp add: session3_expenses)

subsection \<open>The two slots that read the list\<close>

lemma state_of_save_as_excel: "state_of (save_as_excel file_path to_excel st) = st"
  by (simp add: save_as_excel_def split: option.splits)

lemma state_of_generate_report: "state_of (generate_report plt_pie st) = st"
  by (simp add: generate_report_def Let_def split: option.splits)

lemma session_inf_expenses:
  "expenses session_inf =
     [\<lparr>amount = PInf, category = ''Food'', date = ''04/11/2026'', time = ''09:30:00''\<rparr>,
      \<lparr>amount = NotANumber, category = ''Food'', date = ''04/11/2026'',
        time = ''09:30:00''\<rparr>]"
  by code_simp

text \<open>
  C4, as the program has it. The claim as written is about every ledger and every
  amount. On an empty ledger the guard of line 143 writes no file at all, and an
  amount that is infinite or not a number, which \<open>float\<close> returns for \<open>inf\<close> and
  \<open>nan\<close>, is not written as a number (the counterexample below). For a ledger of N
  records, N at least 1, a path chosen in the dialog and a write that does not raise,
  \<open>save_as_excel\<close> calls \<open>to_excel\<close> once, on the frame of the records: columns
  amount, category, date, time in this order, and N rows, the row of record i
  holding its amount as the float (not the text with the rupee sign of the table
  widget) and its category, date and time as the stored strs. The sheet written for
  that frame has one header row with the four column names, then exactly N rows; in
  the row of record i the amount is a numeric cell when it is finite, the text inf or
  -inf when it is infinite and an empty text when it is not a number, and the three
  other cells are made of the stored strs.
\<close>

theorem save_as_excel_rows:
  assumes "expenses st \<noteq> []" and "file_path \<noteq> []"
  shows "save_as_excel file_path None st =
           Inr ([ExcelFile file_path (DataFrame (expenses st)),
                 Information ''Success'' ''Data saved as Excel successfully!''], st)
       \<and> fst (DataFrame (expenses st)) = [''amount'', ''category'', ''date'', ''time'']
       \<and> length (snd (DataFrame (expenses st))) = length (expenses st)
       \<and> (\<forall>i < length (expenses st).
            snd (DataFrame (expenses st)) ! i =
              [PyFloat (amount (expenses st ! i)), PyStr (category (expenses st ! i)),
               PyStr (date (expenses st ! i)), PyStr (time (expenses st ! i))])
       \<and> length (sheet_written classify (DataFrame (expenses st))) = length (expenses st) + 1
       \<and> hd (sheet_written classify (DataFrame (expenses st))) =
           [Written ''amount'', Written ''category'', Written ''date'', Written ''time'']
       \<and> (\<forall>i < length (expenses st).
            tl (sheet_written classify (DataFrame (expenses st))) ! i =
              [(case classify (amount (expenses st ! i)) of
                  Finite \<Rightarrow> Number (amount (expenses st ! i))
                | PosInf \<Rightarrow> Written ''inf''
                | NegInf \<Rightarrow> Written ''-inf''
                | NaN \<Rightarrow> Written []),
               Written (category (expenses st ! i)),
               Written (date (expenses st ! i)), Written (time (expenses st ! i))])"
  using assms
  by (simp add: save_as_excel_def DataFrame_def sheet_written_def excel_value_def)

theorem save_as_excel_rows_witness:
  "expenses session3 \<noteq> []
   \<and> save_as_excel ''expenses.xlsx'' None session3 =
       Inr ([ExcelFile ''expenses.xlsx'' (DataFrame (expenses session3)),
             Information ''Success'' ''Data saved as Excel successfully!''], session3)
   \<and> sheet_written rat_class (DataFrame (expenses session3)) =
       [[Written ''amount'', Written ''category'', Written ''date'', Written ''time''],
        [Number 100, Written ''Food'', Written ''04/11/2026'', Written ''09:30:00''],
        [Number 50, Written ''Food'', Written ''04/11/2026'', Written ''09:30:00''],
        [Number 30, Written ''Travel'', Written ''04/11/2026'', Written ''09:30:00'']]
   \<and> expenses session_inf \<noteq> []
   \<and> tl (sheet_written xfloat_class (DataFrame (expenses session_inf))) ! 0 =
       [Written ''inf'', Written ''Food'', Written ''04/11/2026'', Written ''09:30:00'']
   \<and> tl (sheet_written xfloat_class (DataFrame (expenses session_inf))) ! 1 =
       [Written [], Written ''Food'', Written ''04/11/2026'', Written ''09:30:00'']"
proof -
  have n3: "expenses session3 \<noteq> []" by (simp add: session3_expenses)
  have ni: "expenses session_inf \<noteq> []" by (simp add: session_inf_expenses)
  have p: "''expenses.xlsx'' \<noteq> []" by simp
  note k3 = save_as_excel_rows [of session3 "''expenses.xlsx''" rat_class, OF n3 p]
  note ki = save_as_excel_rows [of session_inf "''expenses.xlsx''" xfloat_class, OF ni p]
  from k3 have 1: "save_as_excel ''expenses.xlsx'' None session3 =
       Inr ([ExcelFile ''expenses.xlsx'' (DataFrame (expenses session3)),
             Information ''Success'' ''Data saved as Excel successfully!''], session3)"
    by blast
  let ?s3 = "sheet_written rat_class (DataFrame (expenses session3))"
  from k3 have l: "length ?s3 = length (expenses session3) + 1"
    and h: "hd ?s3 = [Written ''amount'', Written ''category'', Written ''date'',
                      Written ''time'']"
    and r: "\<forall>i < length (expenses session3).
            tl ?s3 ! i =
              [(case rat_class (amount (expenses session3 ! i)) of
                  Finite \<Rightarrow> Number (amount (expenses session3 ! i))
                | PosInf \<Rightarrow> Written ''inf''
                | NegInf \<Rightarrow> Written ''-inf''
                | NaN \<Rightarrow> Written []),
               Written (category (expenses session3 ! i)),
               Written (date (expenses session3 ! i)),
               Written (time (expenses session3 ! i))]"
    by blast+
  from l have l4: "length ?s3 = 4" by (simp add: session3_expenses)
  from r have r0: "tl ?s3 ! 0 =
        [Number 100, Written ''Food'', Written ''04/11/2026'', Written ''09:30:00'']"
    and r1: "tl ?s3 ! 1 =
        [Number 50, Written ''Food'', Written ''04/11/2026'', Written ''09:30:00'']"
    and r2: "tl ?s3 ! 2 =
        [Number 30, Written ''Travel'', Written ''04/11/2026'', Written ''09:30:00'']"
    by (simp_all add: session3_expenses rat_class_def)
  from l4 obtain a b c d where abcd: "?s3 = [a, b, c, d]"
    by (auto simp: length_Suc_conv numeral_eq_Suc)
  with h r0 r1 r2 have 2: "?s3 =
       [[Written ''amount'', Written ''category'', Written ''date'', Written ''time''],
        [Number 100, Written ''Food'', Written ''04/11/2026'', Written ''09:30:00''],
        [Number 50, Written ''Food'', Written ''04/11/2026'', Written ''09:30:00''],
        [Number 30, Written ''Travel'', Written ''04/11/2026'', Written ''09:30:00'']]"
    by simp
  let ?si = "sheet_written xfloat_class (DataFrame (expenses session_inf))"
  from ki have ri: "\<forall>i < length (expenses session_inf).
            tl ?si ! i =
              [(case xfloat_class (amount (expenses session_inf ! i)) of
                  Finite \<Rightarrow> Number (amount (expenses session_inf ! i))
                | PosInf \<Rightarrow> Written ''inf''
                | NegInf \<Rightarrow> Written ''-inf''
                | NaN \<Rightarrow> Written []),
               Written (category (expenses session_inf ! i)),
               Written (date (expenses session_inf ! i)),
               Written (time (expenses session_inf ! i))]"
    by blast
  then have 3: "tl ?si ! 0 =
       [Written ''inf'', Written ''Food'', Written ''04/11/2026'', Written ''09:30:00'']"
    and 4: "tl ?si ! 1 =
       [Written [], Written ''Food'', Written ''04/11/2026'', Written ''09:30:00'']"
    by (simp_all add: session_inf_expenses xfloat_class_def)
  from n3 1 2 ni 3 4 show ?thesis by blast
qed

text \<open>
  The claim of C4 as written fails on the empty ledger: a fresh window, a path chosen,
  a file system that would take the file, and the only effect is the warning. It also
  fails for the amount typed as inf: the record holds an infinite amount, and the
  cell written for it is the text inf, not a number.
\<close>

theorem save_as_excel_empty_counterexample:
  "expenses session0 = []
   \<and> save_as_excel ''expenses.xlsx'' None session0 =
       Inr ([Warning ''No Data'' ''No expenses to save.''], session0)
   \<and> float_words ''inf'' = Some PInf
   \<and> amount (expenses session_inf ! 0) = PInf
   \<and> hd (tl (sheet_written xfloat_class (DataFrame (expenses session_inf))) ! 0)
       = Written ''inf''"
proof -
  have 1: "expenses session0 = []
   \<and> save_as_excel ''expenses.xlsx'' None session0 =
       Inr ([Warning ''No Data'' ''No expenses to save.''], session0)"
    by (simp add: save_as_excel_def session0_def ExpenseTracker_init_def)
  have 2: "float_words ''inf'' = Some PInf" by code_simp
  have 3: "amount (expenses session_inf ! 0) = PInf"
    by (simp add: session_inf_expenses)
  have 4: "hd (tl (sheet_written xfloat_class (DataFrame (expenses session_inf))) ! 0)
       = Written ''inf''"
    by (simp add: session_inf_expenses DataFrame_def sheet_written_def excel_value_def
          xfloat_class_def)
  from 1 2 3 4 show ?thesis by blast
qed


text \<open>
  C7. On an empty ledger the aggregation is the empty dict, \<open>generate_report\<close> only
  raises the No Data warning (no chart, whatever matplotlib would have done) and
  \<open>save_as_excel\<close> only raises its No Data warning (no dialog, no file, whatever the
  path and the file system); both return normally and leave the state as it was.
\<close>

theorem empty_ledger_notice:
  assumes "expenses st = []"
  shows "totals_by_category (expenses st) = []
       \<and> generate_report plt_pie st =
           Inr ([Warning ''No Data'' ''No expenses to generate a report.''], st)
       \<and> save_as_excel file_path to_excel st =
           Inr ([Warning ''No Data'' ''No expenses to save.''], st)"
  using assms by (simp add: totals_by_category_def generate_report_def save_as_excel_def)

theorem empty_ledger_notice_witness:
  "expenses session_abc = []
   \<and> totals_by_category (expenses session_abc) = []
   \<and> generate_report None session_abc =
       Inr ([Warning ''No Data'' ''No expenses to generate a report.''], session_abc)
   \<and> save_as_excel ''report.xlsx'' None session_abc =
       Inr ([Warning ''No Data'' ''No expenses to save.''], session_abc)"
proof -
  have e: "expenses session_abc = []" by code_simp
  from empty_ledger_notice [OF e, of None "''report.xlsx''" None] e
  show ?thesis by simp
qed

text \<open>
  C8. \<open>save_as_excel\<close> and \<open>generate_report\<close> leave the whole state, and so the list
  of records, as it was: when they write the file or show the chart, when they only
  warn or the dialog is cancelled, and when the library call raises.
\<close>

theorem slots_leave_ledger:
  "state_of (save_as_excel file_path to_excel st) = st
   \<and> expenses (state_of (save_as_excel file_path to_excel st)) = expenses st
   \<and> state_of (generate_report plt_pie st) = st
   \<and> expenses (state_of (generate_report plt_pie st)) = expenses st"
  by (simp add: state_of_save_as_excel state_of_generate_report)

theorem slots_leave_ledger_witness:
  "expenses (state_of (save_as_excel ''/expenses.xlsx'' (Some OSError) session3))
     = expenses session3
   \<and> expenses (state_of (save_as_excel ''expenses.xlsx'' None session3)) = expenses session3
   \<and> expenses (state_of (save_as_excel [] None session3)) = expenses session3
   \<and> expenses (state_of (generate_report None session3)) = expenses session3
   \<and> expenses (state_of (generate_report (Some ValueError) session_negative))
     = expenses session_negative"
  using slots_leave_ledger [of "''/expenses.xlsx''" "Some OSError" session3 None]
        slots_leave_ledger [of "''expenses.xlsx''" None session3 None]
        slots_leave_ledger [of "[]" None session3 None]
        slots_leave_ledger [of "[]" None session_negative "Some ValueError"]
  by simp

text \<open>
  C9. The claim is that an export to a place that cannot be written is caught in the
  slot and shown to the user. \<open>save_as_excel\<close> has no handler: with three records, a
  path chosen and \<open>to_excel\<close> raising \<open>OSError\<close>, the exception leaves the slot and
  no message box is raised.
\<close>

theorem save_as_excel_unwritable:
  "expenses session3 \<noteq> []
   \<and> save_as_excel ''/expenses.xlsx'' (Some OSError) session3 = Inl (OSError, session3)"
  by (simp add: save_as_excel_def session3_expenses)

subsection \<open>What the events of a session keep\<close>

lemma select_category_fields:
  "category_input (select_category i st) = category_input st"
  "date_input (select_category i st) = date_input st"
  "expenses (select_category i st) = expenses st"
  by (simp_all add: select_category_def toggle_custom_category_def Let_def)

lemma add_expense_fields:
  "date_input (snd (add_expense float st)) = date_input st"
  "set (category_input st) \<subseteq> set (category_input (snd (add_expense float st)))"
  by (auto simp: add_expense_def record_expense_def Let_def split: option.splits)

lemma add_expense_expenses:
  "expenses (snd (add_expense float st)) = expenses st
   \<or> (\<exists>a c. float (amount_input st) = Some a
         \<and> expenses (snd (add_expense float st)) =
             expenses st @ [\<lparr>amount = a, category = c, date = date_input st, time = time_input st\<rparr>])"
  by (auto simp: add_expense_def record_expense_def Let_def split: option.splits)

lemma handle_date_input: "date_input (handle float ev st) = date_input st"
  by (cases ev)
     (simp_all add: select_category_fields add_expense_fields state_of_save_as_excel
        state_of_generate_report update_time_def)

lemma handle_category_input:
  "set (category_input st) \<subseteq> set (category_input (handle float ev st))"
  by (cases ev)
     (simp_all add: select_category_fields add_expense_fields state_of_save_as_excel
        state_of_generate_report update_time_def)

lemma handle_expenses:
  "expenses (handle float ev st) = expenses st
   \<or> (\<exists>a c. float (amount_input st) = Some a
         \<and> expenses (handle float ev st) =
             expenses st @ [\<lparr>amount = a, category = c, date = date_input st, time = time_input st\<rparr>])"
proof (cases ev)
  case ClickAdd
  then show ?thesis using add_expense_expenses [of float st] by simp
qed (simp_all add: select_category_fields state_of_save_as_excel
        state_of_generate_report update_time_def)

lemma run_date_input: "date_input (run float evs st) = date_input st"
  by (induction evs arbitrary: st) (simp_all add: handle_date_input)

lemma run_category_input: "set (category_input st) \<subseteq> set (category_input (run float evs st))"
proof (induction evs arbitrary: st)
  case Nil
  then show ?case by simp
next
  case (Cons ev evs)
  have "set (category_input st) \<subseteq> set (category_input (handle float ev st))"
    by (rule handle_category_input)
  also have "\<dots> \<subseteq> set (category_input (run float evs (handle float ev st)))"
    by (rule Cons.IH)
  finally show ?case by simp
qed

lemma run_dates:
  "\<forall>r \<in> set (expenses st). date r = date_input st \<Longrightarrow>
   \<forall>r \<in> set (expenses (run float evs st)). date r = date_input st"
proof (induction evs arbitrary: st)
  case Nil
  then show ?case by simp
next
  case (Cons ev evs)
  have "\<forall>r \<in> set (expenses (handle float ev st)). date r = date_input (handle float ev st)"
    using handle_expenses [of float ev st] Cons.prems
    by (auto simp: handle_date_input)
  from Cons.IH [OF this] show ?case
    by (simp add: handle_date_input)
qed

lemma run_amounts:
  "\<forall>r \<in> set (expenses st). \<exists>s. float s = Some (amount r) \<Longrightarrow>
   \<forall>r \<in> set (expenses (run float evs st)). \<exists>s. float s = Some (amount r)"
proof (induction evs arbitrary: st)
  case Nil
  then show ?case by simp
next
  case (Cons ev evs)
  have "\<forall>r \<in> set (expenses (handle float ev st)). \<exists>s. float s = Some (amount r)"
  proof
    fix r
    assume r: "r \<in> set (expenses (handle float ev st))"
    from handle_expenses [of float ev st]
    show "\<exists>s. float s = Some (amount r)"
    proof
      assume "expenses (handle float ev st) = expenses st"
      with r Cons.prems show ?thesis by simp
    next
      assume "\<exists>a c. float (amount_input st) = Some a
         \<and> expenses (handle float ev st) =
             expenses st @ [\<lparr>amount = a, category = c, date = date_input st, time = time_input st\<rparr>]"
      then obtain a c where a: "float (amount_input st) = Some a"
        and e: "expenses (handle float ev st) =
             expenses st @ [\<lparr>amount = a, category = c, date = date_input st, time = time_input st\<rparr>]"
        by blast
      from r e have "r \<in> set (expenses st) \<or> amount r = a" by auto
      then show ?thesis
      proof
        assume "r \<in> set (expenses st)"
        with Cons.prems show ?thesis by simp
      next
        assume "amount r = a"
        with a have "float (amount_input st) = Some (amount r)" by simp
        then show ?thesis by (rule exI)
      qed
    qed
  qed
  from Cons.IH [OF this] show ?case
    by simp
qed

lemma select_category_currentText:
  "i < length (category_input st) \<Longrightarrow> currentText (select_category i st) = category_input st ! i"
  by (simp add: select_category_def toggle_custom_category_def currentText_def Let_def)

lemma can_select:
  assumes "c \<in> set (category_input st)"
  shows "\<exists>i < length (category_input st). currentText (select_category i st) = c"
proof -
  from assms obtain i where "i < length (category_input st)" "category_input st ! i = c"
    by (auto simp: in_set_conv_nth)
  then show ?thesis
    using select_category_currentText by blast
qed


lemma add_expense_custom_items:
  assumes "float (amount_input st) = Some a"
    and "currentText st = ''Others''"
    and "strip (custom_category_input st) \<noteq> []"
  shows "category_input (snd (add_expense float st)) =
           (if strip (custom_category_input st) \<in> set (category_input st)
            then category_input st
            else category_input st @ [strip (custom_category_input st)])"
  using assms by (simp add: add_expense_def record_expense_def Let_def)

lemma add_expense_custom_expenses:
  assumes "float (amount_input st) = Some a"
    and "currentText st = ''Others''"
    and "strip (custom_category_input st) \<noteq> []"
  shows "expenses (snd (add_expense float st)) =
           expenses st @ [\<lparr>amount = a, category = strip (custom_category_input st),
                            date = date_input st, time = time_input st\<rparr>]"
  using assms by (simp add: add_expense_def record_expense_def Let_def)

text \<open>
  C5. When an add goes through with Others selected and a custom name that is not
  empty once stripped, the new record has the stripped name as its category; the
  name is appended to the items of the drop-down unless it is one of them already,
  in which case the items are unchanged (so items without repetition stay so); and
  whatever happens next in the session the name stays among the items, where
  choosing it makes it the current text.
\<close>

theorem custom_category_kept:
  assumes "float (amount_input st) = Some a"
    and "currentText st = ''Others''"
    and "strip (custom_category_input st) \<noteq> []"
  shows "category (last (expenses (snd (add_expense float st)))) =
           strip (custom_category_input st)
       \<and> category_input (snd (add_expense float st)) =
           (if strip (custom_category_input st) \<in> set (category_input st)
            then category_input st
            else category_input st @ [strip (custom_category_input st)])
       \<and> (distinct (category_input st) \<longrightarrow>
            distinct (category_input (snd (add_expense float st))))
       \<and> (\<forall>evs. strip (custom_category_input st)
                   \<in> set (category_input (run float evs (snd (add_expense float st))))
              \<and> (\<exists>i < length (category_input (run float evs (snd (add_expense float st)))).
                    currentText (select_category i (run float evs (snd (add_expense float st))))
                      = strip (custom_category_input st)))"
proof -
  let ?c = "strip (custom_category_input st)"
  let ?st' = "snd (add_expense float st)"
  have items: "category_input ?st' =
                 (if ?c \<in> set (category_input st) then category_input st
                  else category_input st @ [?c])"
    using assms by (rule add_expense_custom_items)
  have "expenses ?st' =
          expenses st @ [\<lparr>amount = a, category = ?c,
                           date = date_input st, time = time_input st\<rparr>]"
    using assms by (rule add_expense_custom_expenses)
  then have 1: "category (last (expenses ?st')) = ?c"
    by simp
  have 3: "distinct (category_input st) \<longrightarrow> distinct (category_input ?st')"
    by (simp add: items)
  have mem: "?c \<in> set (category_input ?st')"
    by (simp add: items)
  have 4: "?c \<in> set (category_input (run float evs ?st'))
           \<and> (\<exists>i < length (category_input (run float evs ?st')).
                 currentText (select_category i (run float evs ?st')) = ?c)" for evs
  proof -
    from mem run_category_input [of ?st' float evs]
    have "?c \<in> set (category_input (run float evs ?st'))" by blast
    with can_select show ?thesis by blast
  qed
  from 1 items 3 4 show ?thesis by blast
qed

theorem custom_category_kept_witness:
  "float_plain (amount_input session_gifts) = Some (25 / 2)
   \<and> currentText session_gifts = ''Others''
   \<and> strip (custom_category_input session_gifts) = ''Gifts''
   \<and> category (last (expenses (snd (add_expense float_plain session_gifts)))) = ''Gifts''
   \<and> category_input (snd (add_expense float_plain session_gifts)) =
       [''Food'', ''Travel'', ''Utilities'', ''Entertainment'', ''Others'', ''Gifts'']
   \<and> ''Gifts'' \<in> set (category_input
         (run float_plain [SelectCategory 0, EditAmount ''7'', ClickAdd]
            (snd (add_expense float_plain session_gifts))))"
proof -
  have a: "float_plain (amount_input session_gifts) = Some (25 / 2)" by code_simp
  have b: "currentText session_gifts = ''Others''" by code_simp
  have c: "strip (custom_category_input session_gifts) = ''Gifts''" by code_simp
  have c': "strip (custom_category_input session_gifts) \<noteq> []" by (simp add: c)
  have d: "category_input session_gifts =
             [''Food'', ''Travel'', ''Utilities'', ''Entertainment'', ''Others'']" by code_simp
  note k = custom_category_kept [of float_plain session_gifts "25 / 2", OF a b c']
  from k have 1: "category (last (expenses (snd (add_expense float_plain session_gifts))))
                  = ''Gifts''"
    by (simp add: c)
  from k have 2: "category_input (snd (add_expense float_plain session_gifts)) =
       [''Food'', ''Travel'', ''Utilities'', ''Entertainment'', ''Others'', ''Gifts'']"
    by (simp add: c d)
  from k have "\<forall>evs. ''Gifts'' \<in> set (category_input
         (run float_plain evs (snd (add_expense float_plain session_gifts))))"
    by (simp add: c)
  then have 3: "''Gifts'' \<in> set (category_input
         (run float_plain [SelectCategory 0, EditAmount ''7'', ClickAdd]
            (snd (add_expense float_plain session_gifts))))"
    by (rule spec)
  from a b c 1 2 3 show ?thesis by blast
qed

text \<open>
  C6, as the program has it. The claim as written is that no record ever has a zero
  or negative amount; \<open>add_expense\<close> only asks that the text parses, and typing -5
  puts a record of amount -5 in the list (the counterexample below). What holds of
  every record of every session is that its amount is a number \<open>float\<close> returned for
  some text; and an add that goes through stores the number parsed, whatever its
  sign.
\<close>

theorem amounts_are_what_float_returned:
  "(\<forall>r \<in> set (expenses (run float evs (ExpenseTracker_init today now))).
       \<exists>s. float s = Some (amount r))
   \<and> (float (amount_input st) = Some a
        \<and> (currentText st \<noteq> ''Others'' \<or> strip (custom_category_input st) \<noteq> [])
      \<longrightarrow> amount (last (expenses (snd (add_expense float st)))) = a)"
proof -
  have "\<forall>r \<in> set (expenses (ExpenseTracker_init today now :: 'a tracker)).
          \<exists>s. float s = Some (amount r)"
    by (simp add: ExpenseTracker_init_def)
  from run_amounts [OF this]
  have 1: "\<forall>r \<in> set (expenses (run float evs (ExpenseTracker_init today now))).
       \<exists>s. float s = Some (amount r)" .
  have 2: "float (amount_input st) = Some a
        \<and> (currentText st \<noteq> ''Others'' \<or> strip (custom_category_input st) \<noteq> [])
      \<longrightarrow> amount (last (expenses (snd (add_expense float st)))) = a"
    by (auto simp: add_expense_def record_expense_def Let_def)
  from 1 2 show ?thesis by blast
qed

theorem amounts_are_what_float_returned_witness:
  "\<lparr>amount = - 5, category = ''Food'', date = ''04/11/2026'', time = ''09:30:00''\<rparr>
      \<in> set (expenses (run float_plain [EditAmount ''-5'', ClickAdd]
                 (ExpenseTracker_init ''04/11/2026'' clock0)))
   \<and> (\<exists>s. float_plain s = Some (- 5))
   \<and> float_plain (amount_input session_zero) = Some 0
   \<and> currentText session_zero \<noteq> ''Others''
   \<and> amount (last (expenses (snd (add_expense float_plain session_zero)))) = 0"
proof -
  let ?r = "\<lparr>amount = - 5 :: rat, category = ''Food'', date = ''04/11/2026'',
              time = ''09:30:00''\<rparr>"
  have e: "expenses (run float_plain [EditAmount ''-5'', ClickAdd]
                 (ExpenseTracker_init ''04/11/2026'' clock0)) = [?r]"
    by code_simp
  then have m: "?r \<in> set (expenses (run float_plain [EditAmount ''-5'', ClickAdd]
                 (ExpenseTracker_init ''04/11/2026'' clock0)))"
    by simp
  have b: "float_plain (amount_input session_zero) = Some 0" by code_simp
  have c: "currentText session_zero \<noteq> ''Others''" by code_simp
  note k = amounts_are_what_float_returned
         [of float_plain "[EditAmount ''-5'', ClickAdd]" "''04/11/2026''" clock0
             session_zero 0]
  from k m have 1: "\<exists>s. float_plain s = Some (amount ?r)" by blast
  from k b c have 2: "amount (last (expenses (snd (add_expense float_plain session_zero)))) = 0"
    by blast
  from m 1 b c 2 show ?thesis by simp
qed

text \<open>
  The claim of C6 as written fails: in a fresh window, typing -5 and pressing Add
  Expense leaves a record whose amount is not positive.
\<close>

theorem amount_positive_counterexample:
  "expenses session_negative =
     [\<lparr>amount = - 5, category = ''Food'', date = ''04/11/2026'', time = ''09:30:00''\<rparr>]
   \<and> \<not> list_all amount_positive (expenses session_negative)"
proof -
  have e: "expenses session_negative =
     [\<lparr>amount = - 5, category = ''Food'', date = ''04/11/2026'', time = ''09:30:00''\<rparr>]"
    by code_simp
  then show ?thesis by (simp add: amount_positive_def)
qed

lemma run_append: "run float (evs @ evs') st = run float evs' (run float evs st)"
  by (induction evs arbitrary: st) simp_all

lemma add_expense_time_input:
  "time_input (snd (add_expense float st)) = time_input st"
  by (auto simp: add_expense_def record_expense_def Let_def split: option.splits)

lemma select_category_time_input:
  "time_input (select_category i st) = time_input st"
  by (simp add: select_category_def toggle_custom_category_def Let_def)

lemma run_time_input: "time_input (run float evs st) = shown_time (time_input st) evs"
proof (induction evs arbitrary: st)
  case Nil
  then show ?case by simp
next
  case (Cons ev evs)
  show ?case
    by (cases ev)
       (simp_all add: Cons.IH select_category_time_input add_expense_time_input
          state_of_save_as_excel state_of_generate_report update_time_def)
qed

lemma add_expense_stamp:
  assumes "float (amount_input st) = Some a"
    and "currentText st \<noteq> ''Others'' \<or> strip (custom_category_input st) \<noteq> []"
  shows "date (last (expenses (snd (add_expense float st)))) = date_input st"
    and "time (last (expenses (snd (add_expense float st)))) = time_input st"
  using assms by (auto simp: add_expense_def record_expense_def Let_def)

lemma appended_at_dates:
  "\<forall>(clk, r) \<in> set (appended_at float tevs st). date r = date_input st"
proof (induction tevs arbitrary: st)
  case Nil
  then show ?case by simp
next
  case (Cons te tevs)
  obtain clk ev where te: "te = (clk, ev)" by (cases te)
  have IH: "\<forall>(clk, r) \<in> set (appended_at float tevs (handle float ev st)). date r = date_input st"
    using Cons.IH [of "handle float ev st"] by (simp add: handle_date_input)
  show ?case
  proof (cases ev)
    case ClickAdd
    have "length (expenses (handle float ClickAdd st)) \<noteq> length (expenses st) \<Longrightarrow>
          date (last (expenses (handle float ClickAdd st))) = date_input st"
      using add_expense_expenses [of float st] by auto
    with IH ClickAdd te show ?thesis by auto
  qed (use IH te in auto)
qed

text \<open>
  C10, as the program has it. The timer slot changes the time label and nothing
  else; the date label is set by the constructor and no event changes it. So in
  every session the date label, and the date of every record, is the date read at
  construction, whatever the clock reads when the record is appended. The claim as
  written adds that the time of a record is the current time at the moment of the
  append; \<open>add_expense\<close> does not read the clock (line 121 reads the label), and the
  label may be behind it (the counterexample below). What holds is that the time of
  a record is the text of the time label when it is appended: the time read at the
  last tick of the timer before the click, or at construction when there was none.
\<close>

theorem date_fixed_at_construction:
  "date_input (run float evs (ExpenseTracker_init today now)) = today
   \<and> (\<forall>r \<in> set (expenses (run float evs (ExpenseTracker_init today now))). date r = today)
   \<and> (\<forall>(clk, r) \<in> set (appended_at float tevs (ExpenseTracker_init today now)).
         date r = today)
   \<and> update_time clock st = st\<lparr>time_input := HHmmss clock\<rparr>
   \<and> date_input (update_time clock st) = date_input st
   \<and> time_input (run float evs (ExpenseTracker_init today now)) = shown_time (HHmmss now) evs
   \<and> (float (amount_input (run float evs (ExpenseTracker_init today now))) = Some a
        \<and> (currentText (run float evs (ExpenseTracker_init today now)) \<noteq> ''Others''
           \<or> strip (custom_category_input (run float evs (ExpenseTracker_init today now)))
               \<noteq> [])
      \<longrightarrow> date (last (expenses (run float (evs @ [ClickAdd])
                                   (ExpenseTracker_init today now)))) = today
        \<and> time (last (expenses (run float (evs @ [ClickAdd])
                                   (ExpenseTracker_init today now))))
            = shown_time (HHmmss now) evs)
   \<and> (float (amount_input st) = Some a
        \<and> (currentText st \<noteq> ''Others'' \<or> strip (custom_category_input st) \<noteq> [])
      \<longrightarrow> time (last (expenses (snd (add_expense float st)))) = time_input st
        \<and> date (last (expenses (snd (add_expense float (update_time clock st)))))
            = date_input st
        \<and> time (last (expenses (snd (add_expense float (update_time clock st)))))
            = HHmmss clock)"
proof -
  let ?init = "ExpenseTracker_init today now :: 'a tracker"
  have d0: "date_input ?init = today"
    by (simp add: ExpenseTracker_init_def)
  have t0: "time_input ?init = HHmmss now"
    by (simp add: ExpenseTracker_init_def)
  have 1: "date_input (run float evs ?init) = today"
    by (simp add: run_date_input d0)
  have "\<forall>r \<in> set (expenses ?init). date r = date_input ?init"
    by (simp add: ExpenseTracker_init_def)
  from run_dates [OF this, of float evs]
  have 2: "\<forall>r \<in> set (expenses (run float evs ?init)). date r = today"
    by (simp add: d0)
  have 3: "\<forall>(clk, r) \<in> set (appended_at float tevs ?init). date r = today"
    using appended_at_dates [of float tevs ?init] by (simp add: d0)
  have 4: "update_time clock st = st\<lparr>time_input := HHmmss clock\<rparr>"
    by (simp add: update_time_def)
  have 5: "date_input (update_time clock st) = date_input st"
    by (simp add: update_time_def)
  have 6: "time_input (run float evs ?init) = shown_time (HHmmss now) evs"
    by (simp add: run_time_input t0)
  have 7: "float (amount_input (run float evs ?init)) = Some a
        \<and> (currentText (run float evs ?init) \<noteq> ''Others''
           \<or> strip (custom_category_input (run float evs ?init)) \<noteq> [])
      \<longrightarrow> date (last (expenses (run float (evs @ [ClickAdd]) ?init))) = today
        \<and> time (last (expenses (run float (evs @ [ClickAdd]) ?init)))
            = shown_time (HHmmss now) evs"
  proof
    assume h: "float (amount_input (run float evs ?init)) = Some a
        \<and> (currentText (run float evs ?init) \<noteq> ''Others''
           \<or> strip (custom_category_input (run float evs ?init)) \<noteq> [])"
    then have a: "float (amount_input (run float evs ?init)) = Some a"
      and b: "currentText (run float evs ?init) \<noteq> ''Others''
           \<or> strip (custom_category_input (run float evs ?init)) \<noteq> []"
      by blast+
    from add_expense_stamp [of float "run float evs ?init" a, OF a b] 1 6
    show "date (last (expenses (run float (evs @ [ClickAdd]) ?init))) = today
        \<and> time (last (expenses (run float (evs @ [ClickAdd]) ?init)))
            = shown_time (HHmmss now) evs"
      by (simp add: run_append)
  qed
  have 8: "float (amount_input st) = Some a
        \<and> (currentText st \<noteq> ''Others'' \<or> strip (custom_category_input st) \<noteq> [])
      \<longrightarrow> time (last (expenses (snd (add_expense float st)))) = time_input st
        \<and> date (last (expenses (snd (add_expense float (update_time clock st)))))
            = date_input st
        \<and> time (last (expenses (snd (add_expense float (update_time clock st)))))
            = HHmmss clock"
    by (auto simp: add_expense_def record_expense_def update_time_def currentText_def Let_def)
  from 1 2 3 4 5 6 7 8 show ?thesis by blast
qed

theorem date_fixed_at_construction_witness:
  "\<lparr>amount = 100, category = ''Food'', date = ''04/11/2026'', time = ''00:00:07''\<rparr>
        \<in> set (expenses session_next_day)
   \<and> (clock_next_day,
        \<lparr>amount = 100, category = ''Food'', date = ''04/11/2026'', time = ''00:00:07''\<rparr>)
        \<in> set (appended_at float_plain next_day (ExpenseTracker_init ''04/11/2026'' clock0))
   \<and> ddMMyyyy clock_next_day = ''05/11/2026''
   \<and> date_input session_next_day = ''04/11/2026''
   \<and> float_plain (amount_input session_typed) = Some 100
   \<and> currentText session_typed \<noteq> ''Others''
   \<and> time (last (expenses (snd (add_expense float_plain session_typed)))) = ''09:30:00''
   \<and> date (last (expenses (snd (add_expense float_plain
               (update_time clock_next_day session_typed))))) = ''04/11/2026''
   \<and> time (last (expenses (snd (add_expense float_plain
               (update_time clock_next_day session_typed))))) = ''00:00:07''
   \<and> float_plain (amount_input
         (run float_plain [Timeout clock_next_day, EditAmount ''100'']
            (ExpenseTracker_init ''04/11/2026'' clock0))) = Some 100
   \<and> time (last (expenses
         (run float_plain ([Timeout clock_next_day, EditAmount ''100''] @ [ClickAdd])
            (ExpenseTracker_init ''04/11/2026'' clock0)))) = ''00:00:07''"
proof -
  let ?init = "ExpenseTracker_init ''04/11/2026'' clock0 :: rat tracker"
  let ?evs = "[Timeout clock_next_day, EditAmount ''100'', ClickAdd]"
  let ?pre = "[Timeout clock_next_day, EditAmount ''100'']"
  let ?r = "\<lparr>amount = 100 :: rat, category = ''Food'', date = ''04/11/2026'',
              time = ''00:00:07''\<rparr>"
  have s: "session_next_day = run float_plain ?evs ?init"
    by (simp add: session_next_day_def session0_def)
  have "expenses session_next_day = [?r]" by code_simp
  then have m: "?r \<in> set (expenses session_next_day)" by simp
  have "appended_at float_plain next_day ?init = [(clock_next_day, ?r)]" by code_simp
  then have m2: "(clock_next_day, ?r) \<in> set (appended_at float_plain next_day ?init)"
    by simp
  have n: "ddMMyyyy clock_next_day = ''05/11/2026''"
    by (simp add: clock_next_day_def)
  have h: "HHmmss clock_next_day = ''00:00:07''"
    by (simp add: clock_next_day_def)
  have a: "float_plain (amount_input session_typed) = Some 100" by code_simp
  have b: "currentText session_typed \<noteq> ''Others''" by code_simp
  have d: "date_input session_typed = ''04/11/2026''" by code_simp
  have t: "time_input session_typed = ''09:30:00''" by code_simp
  have a': "float_plain (amount_input (run float_plain ?pre ?init)) = Some 100"
    by code_simp
  have b': "currentText (run float_plain ?pre ?init) \<noteq> ''Others''" by code_simp
  have sh: "shown_time (HHmmss clock0) ?pre = ''00:00:07''" by code_simp
  note k = date_fixed_at_construction
             [of float_plain ?evs "''04/11/2026''" clock0 next_day clock_next_day
                 session_typed 100]
  note k' = date_fixed_at_construction
             [of float_plain ?pre "''04/11/2026''" clock0 next_day clock_next_day
                 session_typed 100]
  from k have 1: "date_input session_next_day = ''04/11/2026''"
    unfolding s by blast
  from k m2 have "date ?r = ''04/11/2026''" by blast
  from k a b
  have "time (last (expenses (snd (add_expense float_plain session_typed))))
          = time_input session_typed
        \<and> date (last (expenses (snd (add_expense float_plain
               (update_time clock_next_day session_typed))))) = date_input session_typed
        \<and> time (last (expenses (snd (add_expense float_plain
               (update_time clock_next_day session_typed))))) = HHmmss clock_next_day"
    by blast
  then
  have 2: "time (last (expenses (snd (add_expense float_plain session_typed)))) = ''09:30:00''
         \<and> date (last (expenses (snd (add_expense float_plain
               (update_time clock_next_day session_typed))))) = ''04/11/2026''
         \<and> time (last (expenses (snd (add_expense float_plain
               (update_time clock_next_day session_typed))))) = ''00:00:07''"
    by (simp only: d h t)
  from k' a' b'
  have "time (last (expenses (run float_plain (?pre @ [ClickAdd]) ?init)))
          = shown_time (HHmmss clock0) ?pre"
    by blast
  then have 3: "time (last (expenses (run float_plain (?pre @ [ClickAdd]) ?init)))
                  = ''00:00:07''"
    by (simp only: sh)
  from m m2 n 1 a b 2 a' 3 show ?thesis by blast
qed


text \<open>
  The last clause of C10 as written fails. The window opens at 09:30:00; the timer
  fires when the clock reads 09:30:01; Add Expense is clicked when the clock reads
  09:30:02, before the timer fires again (its ticks are a second apart, not on the
  second); the record is stamped 09:30:01. And a click before the first tick, when
  the clock reads 09:30:01, is stamped 09:30:00.
\<close>

theorem time_is_current_counterexample:
  "appended_at float_plain lagging session0 =
     [(clock_click,
       \<lparr>amount = 100, category = ''Food'', date = ''04/11/2026'', time = ''09:30:01''\<rparr>)]
   \<and> HHmmss clock_click = ''09:30:02''
   \<and> appended_at float_plain no_tick session0 =
     [(clock_tick,
       \<lparr>amount = 100, category = ''Food'', date = ''04/11/2026'', time = ''09:30:00''\<rparr>)]
   \<and> HHmmss clock_tick = ''09:30:01''
   \<and> time (snd (hd (appended_at float_plain lagging session0)))
       \<noteq> HHmmss (fst (hd (appended_at float_plain lagging session0)))"
proof -
  have 1: "appended_at float_plain lagging session0 =
     [(clock_click,
       \<lparr>amount = 100, category = ''Food'', date = ''04/11/2026'', time = ''09:30:01''\<rparr>)]"
    by code_simp
  have 2: "HHmmss clock_click = ''09:30:02''" by (simp add: clock_click_def)
  have 3: "appended_at float_plain no_tick session0 =
     [(clock_tick,
       \<lparr>amount = 100, category = ''Food'', date = ''04/11/2026'', time = ''09:30:00''\<rparr>)]"
    by code_simp
  have 4: "HHmmss clock_tick = ''09:30:01''" by (simp add: clock_tick_def)
  have 5: "time (snd (hd (appended_at float_plain lagging session0)))
       \<noteq> HHmmss (fst (hd (appended_at float_plain lagging session0)))"
    by (simp add: 1 2)
  from 1 2 3 4 5 show ?thesis by blast
qed

end
